theory Spec2Isabelle
  imports Main "HOL-Library.Word"
begin

section \<open>Errors, fallible values and the sequencing token\<close>

text \<open>
  \<^verbatim>\<open>llvm::Error\<close> is either success or carries an error payload; the kernels build
  their payloads with \<^verbatim>\<open>MakeStringError\<close>, so a payload is its message.
  \<^verbatim>\<open>Expected<T>\<close> holds either an error payload or a value of \<^verbatim>\<open>T\<close>.
  \<^verbatim>\<open>Chain\<close> is an empty class: it has exactly one value, \<^verbatim>\<open>Chain{}\<close>.
\<close>

datatype ErrorInfo = StringError string

type_synonym Error = "ErrorInfo option"

type_synonym 'a Expected = "ErrorInfo + 'a"

datatype Chain = Chain

definition StrCat :: "ErrorInfo \<Rightarrow> string" where
  "StrCat e = (case e of StringError m \<Rightarrow> m)"

section \<open>The sync-to-async adapter (kernels.h, WithChainResult)\<close>

text \<open>
  A synchronous kernel \<^verbatim>\<open>sync_func_ptr\<close> is a C++ function with side effects: it
  takes its arguments and the state it acts on, and returns its result and the state
  it leaves. The world of an adapter call is that state together with a counter of
  the calls made through \<^verbatim>\<open>sync_func_ptr\<close>; the state is arbitrary, so it
  includes any work queue the program has.
\<close>

record 's world =
  sync_calls :: nat
  state :: 's

definition call_sync ::
  "('args \<Rightarrow> 's \<Rightarrow> 'r \<times> 's) \<Rightarrow> 'args \<Rightarrow> 's world \<Rightarrow> 'r \<times> 's world" where
  "call_sync sync_func_ptr args w =
     (case sync_func_ptr args (state w) of
        (r, s') \<Rightarrow> (r, \<lparr>sync_calls = Suc (sync_calls w), state = s'\<rparr>))"

text \<open>
  An element of the tuple \<^verbatim>\<open>std::tuple<Results..., Chain>\<close>: one of the wrapped
  function's results, or the appended token.
\<close>

datatype 'v slot = Result 'v | Token Chain

text \<open>\<^verbatim>\<open>WithChainResult<void (*)(Args...), sync_func_ptr>::Invoke\<close>\<close>

definition Invoke_void ::
  "('args \<Rightarrow> 's \<Rightarrow> unit \<times> 's) \<Rightarrow> 'args \<Rightarrow> 's world \<Rightarrow> Chain \<times> 's world" where
  "Invoke_void sync_func_ptr args w =
     (case call_sync sync_func_ptr args w of (u, w') \<Rightarrow> (Chain, w'))"

text \<open>\<^verbatim>\<open>WithChainResult<Error (*)(Args...), sync_func_ptr>::Invoke\<close>\<close>

definition Invoke_Error ::
  "('args \<Rightarrow> 's \<Rightarrow> Error \<times> 's) \<Rightarrow> 'args \<Rightarrow> 's world \<Rightarrow> Chain Expected \<times> 's world" where
  "Invoke_Error sync_func_ptr args w =
     (case call_sync sync_func_ptr args w of
        (Some error, w') \<Rightarrow> (Inl error, w')
      | (None, w') \<Rightarrow> (Inr Chain, w'))"

text \<open>\<^verbatim>\<open>WithChainResult<Expected<Result> (*)(Args...), sync_func_ptr>::Invoke\<close>\<close>

definition Invoke_Expected ::
  "('args \<Rightarrow> 's \<Rightarrow> 'v Expected \<times> 's) \<Rightarrow> 'args \<Rightarrow> 's world
     \<Rightarrow> ('v \<times> Chain) Expected \<times> 's world" where
  "Invoke_Expected sync_func_ptr args w =
     (case call_sync sync_func_ptr args w of
        (Inl error, w') \<Rightarrow> (Inl error, w')
      | (Inr result, w') \<Rightarrow> (Inr (result, Chain), w'))"

text \<open>
  \<^verbatim>\<open>WithChainResult<Expected<std::tuple<Results...>> (*)(Args...), sync_func_ptr>::Invoke\<close>;
  a tuple of any arity is the list of its elements, and \<^verbatim>\<open>std::tuple_cat\<close> appends.
\<close>

definition Invoke_Expected_tuple ::
  "('args \<Rightarrow> 's \<Rightarrow> 'v list Expected \<times> 's) \<Rightarrow> 'args \<Rightarrow> 's world
     \<Rightarrow> 'v slot list Expected \<times> 's world" where
  "Invoke_Expected_tuple sync_func_ptr args w =
     (case call_sync sync_func_ptr args w of
        (Inl error, w') \<Rightarrow> (Inl error, w')
      | (Inr tuple, w') \<Rightarrow> (Inr (map Result tuple @ [Token Chain]), w'))"

subsection \<open>Selection of the specialization by the declared return type\<close>

text \<open>
  The primary template \<^verbatim>\<open>template <typename F, F> struct WithChainResult;\<close> is declared
  and never defined; the four partial specializations are selected by the return type
  of the function pointer type \<^verbatim>\<open>F\<close>. The return types that matter are written as
  terms; \<^verbatim>\<open>Plain n\<close> is any other value type, by name. \<^verbatim>\<open>WithChainResult\<close> gives the
  return type of the selected \<^verbatim>\<open>Invoke\<close>, and \<^verbatim>\<open>None\<close> where only the undefined
  primary template matches, so that the program does not compile. The specialization
  for \<^verbatim>\<open>Expected<std::tuple<Results...>>\<close> is more specialized than the one for
  \<^verbatim>\<open>Expected<Result>\<close> and wins where both match.
\<close>

datatype cpp_type =
    Void
  | ErrorT
  | ExpectedT cpp_type
  | TupleT "cpp_type list"
  | ChainT
  | Plain string

fun WithChainResult :: "cpp_type \<Rightarrow> cpp_type option" where
  "WithChainResult Void = Some ChainT"
| "WithChainResult ErrorT = Some (ExpectedT ChainT)"
| "WithChainResult (ExpectedT (TupleT results)) = Some (ExpectedT (TupleT (results @ [ChainT])))"
| "WithChainResult (ExpectedT result) = Some (ExpectedT (TupleT [result, ChainT]))"
| "WithChainResult _ = None"

text \<open>
  The four return shapes as the specification lists them: \<^verbatim>\<open>Unit\<close>,
  \<^verbatim>\<open>ErrorOr<Unit>\<close>, \<^verbatim>\<open>V\<close> and \<^verbatim>\<open>ErrorOr<V>\<close>, where \<^verbatim>\<open>V\<close> is a value type.
\<close>

fun value_type :: "cpp_type \<Rightarrow> bool" where
  "value_type Void = False"
| "value_type ErrorT = False"
| "value_type (ExpectedT _) = False"
| "value_type _ = True"

fun spec_return_shape :: "cpp_type \<Rightarrow> bool" where
  "spec_return_shape Void = True"
| "spec_return_shape ErrorT = True"
| "spec_return_shape (ExpectedT v) = value_type v"
| "spec_return_shape v = value_type v"

section \<open>Async values and work dispatch (async_dispatch.h)\<close>

text \<open>
  An \<^verbatim>\<open>AsyncValue\<close> is a single-assignment cell: unconstructed, or holding a value, or
  holding an error message. The host owns the cells; an \<^verbatim>\<open>AsyncValueRef\<close> is the
  index of a cell in the host's store, so that copies of a reference
  (\<^verbatim>\<open>CopyRef\<close>) name the same cell.
\<close>

datatype 'a AsyncValue = Unconstructed | Concrete 'a | ErrorState string

type_synonym AsyncValueRef = nat

type_synonym 'a store = "'a AsyncValue list"

fun IsAvailable :: "'a AsyncValue \<Rightarrow> bool" where
  "IsAvailable Unconstructed = False"
| "IsAvailable (Concrete _) = True"
| "IsAvailable (ErrorState _) = True"

text \<open>
  Modelled from the spec: \<^verbatim>\<open>AsyncValueRef<T>::emplace\<close> is declared in
  async_value_ref.h, which is not among the sources. Section 4.1: "resolve(f, value) /
  resolve_error(f, err): transitions state exactly once; fails [...] if called on an
  already-resolved future". \<^verbatim>\<open>None\<close> is that failure.
\<close>

definition emplace :: "AsyncValueRef \<Rightarrow> 'a \<Rightarrow> 'a store \<Rightarrow> 'a store option" where
  "emplace r v st =
     (if r < length st \<and> \<not> IsAvailable (st ! r) then Some (st[r := Concrete v]) else None)"

text \<open>
  Modelled from the spec: \<^verbatim>\<open>AsyncValueRef<T>::SetError\<close>, declared in the same header;
  it is the \<^verbatim>\<open>resolve_error\<close> of section 4.1, and fails as \<^verbatim>\<open>emplace\<close> does.
\<close>

definition SetError :: "AsyncValueRef \<Rightarrow> string \<Rightarrow> 'a store \<Rightarrow> 'a store option" where
  "SetError r msg st =
     (if r < length st \<and> \<not> IsAvailable (st ! r) then Some (st[r := ErrorState msg]) else None)"

text \<open>
  What a submitted closure \<^verbatim>\<open>F\<close> returns: a plain \<^verbatim>\<open>R\<close>, or an \<^verbatim>\<open>Expected<R>\<close>.
  \<^verbatim>\<open>internal::UnwrapExpected\<close> maps both to \<^verbatim>\<open>R\<close>, the type of the cell.
\<close>

datatype 'a work_result = Value 'a | Fallible "'a Expected"

text \<open>
  Modelled from the spec: the overload of \<^verbatim>\<open>emplace\<close> that \<^verbatim>\<open>result.emplace(work())\<close>
  selects for the closure's return type is not among the sources. Section 4.2: the
  future is resolved "with the closure's return value once it executes; if the
  closure's natural return type is itself fallible-value shaped, the produced future is
  resolved with error instead of value on failure, never both".
\<close>

fun emplace_result :: "AsyncValueRef \<Rightarrow> 'a work_result \<Rightarrow> 'a store \<Rightarrow> 'a store option" where
  "emplace_result r (Value v) st = emplace r v st"
| "emplace_result r (Fallible (Inr v)) st = emplace r v st"
| "emplace_result r (Fallible (Inl e)) st = SetError r (StrCat e) st"

text \<open>
  A unit of work (\<^verbatim>\<open>llvm::unique_function<void()>\<close>) acts on the cells when it runs.
  The host holds the cells and the work it has accepted and not yet run: the
  non-blocking queue, the blocking queue with its capacity, and the work handed to
  dedicated threads with their limit.
\<close>

type_synonym 'a task = "'a store \<Rightarrow> 'a store option"

record 'a HostContext =
  cells :: "'a store"
  non_blocking_queue :: "'a task list"
  blocking_queue :: "'a task list"
  blocking_queue_capacity :: nat
  blocking_threads :: "'a task list"
  blocking_thread_limit :: nat

text \<open>
  Modelled from the spec: \<^verbatim>\<open>MakeUnconstructedAsyncValueRef<T>(host)\<close> is declared outside
  the sources. Section 4.1: "allocate<T>() -> Future<T>: returns an unresolved future
  with one owning reference". The new cell is the last of the store.
\<close>

definition MakeUnconstructedAsyncValueRef ::
  "'a HostContext \<Rightarrow> AsyncValueRef \<times> 'a HostContext" where
  "MakeUnconstructedAsyncValueRef h = (length (cells h), h\<lparr>cells := cells h @ [Unconstructed]\<rparr>)"

text \<open>
  Modelled from the spec: \<^verbatim>\<open>void EnqueueWork(..., llvm::unique_function<void()> work)\<close>
  is declared in async_dispatch.h and defined outside the sources; it returns nothing.
  Section 4.2: non-blocking enqueue is "queued for execution on a pool thread at
  unspecified future time; always accepted".
\<close>

definition EnqueueWork_void :: "'a HostContext \<Rightarrow> 'a task \<Rightarrow> 'a HostContext" where
  "EnqueueWork_void h work = h\<lparr>non_blocking_queue := non_blocking_queue h @ [work]\<rparr>"

text \<open>
  Modelled from the spec: \<^verbatim>\<open>bool EnqueueBlockingWork(..., llvm::unique_function<void()> work)\<close>
  is declared in async_dispatch.h ("Returns false if the work queue is full and can't
  accept new work") and defined outside the sources. Section 4.2: "false if the queue is
  saturated and cannot admit more work"; section 3: a rejected work item is destroyed
  immediately.
\<close>

definition EnqueueBlockingWork_void :: "'a HostContext \<Rightarrow> 'a task \<Rightarrow> bool \<times> 'a HostContext" where
  "EnqueueBlockingWork_void h work =
     (if length (blocking_queue h) < blocking_queue_capacity h
      then (True, h\<lparr>blocking_queue := blocking_queue h @ [work]\<rparr>)
      else (False, h))"

text \<open>
  Modelled from the spec: \<^verbatim>\<open>bool RunBlockingWork(..., llvm::unique_function<void()> work)\<close>
  is declared in async_dispatch.h ("Returns false if the work queue can't assign a
  thread to a work item") and defined outside the sources. Section 4.2: "returns false
  if the pool cannot provide a thread immediately (e.g., a hard cap on concurrent
  blocking threads reached)".
\<close>

definition RunBlockingWork_void :: "'a HostContext \<Rightarrow> 'a task \<Rightarrow> bool \<times> 'a HostContext" where
  "RunBlockingWork_void h work =
     (if length (blocking_threads h) < blocking_thread_limit h
      then (True, h\<lparr>blocking_threads := blocking_threads h @ [work]\<rparr>)
      else (False, h))"

text \<open>
  A unit of work, or a resolution made inline, acts on the cells of the host; where it
  fails (a cell resolved twice), the program has failed.
\<close>

definition on_cells :: "'a task \<Rightarrow> 'a HostContext \<Rightarrow> 'a HostContext option" where
  "on_cells t h = (case t (cells h) of None \<Rightarrow> None | Some st \<Rightarrow> Some (h\<lparr>cells := st\<rparr>))"

text \<open>
  The closure every typed overload submits:
  \<^verbatim>\<open>[result = result.CopyRef(), work = std::forward<F>(work)]() mutable { result.emplace(work()); }\<close>
\<close>

definition emplace_work :: "AsyncValueRef \<Rightarrow> (unit \<Rightarrow> 'a work_result) \<Rightarrow> 'a task" where
  "emplace_work result work = (\<lambda>st. emplace_result result (work ()) st)"

text \<open>
  The typed overloads. Those taking an \<^verbatim>\<open>ExecutionContext\<close> and those taking a
  \<^verbatim>\<open>HostContext*\<close> have the same bodies, on \<^verbatim>\<open>exec_ctx.host()\<close> and on \<^verbatim>\<open>host\<close>.
  \<^verbatim>\<open>SetError\<close> on the returned reference can fail in the model only; the overloads
  return \<^verbatim>\<open>None\<close> there.
\<close>

definition EnqueueWork ::
  "'a HostContext \<Rightarrow> (unit \<Rightarrow> 'a work_result) \<Rightarrow> AsyncValueRef \<times> 'a HostContext" where
  "EnqueueWork h work =
     (case MakeUnconstructedAsyncValueRef h of
        (result, h1) \<Rightarrow> (result, EnqueueWork_void h1 (emplace_work result work)))"

definition EnqueueBlockingWork ::
  "'a HostContext \<Rightarrow> (unit \<Rightarrow> 'a work_result) \<Rightarrow> (AsyncValueRef \<times> 'a HostContext) option" where
  "EnqueueBlockingWork h work =
     (case MakeUnconstructedAsyncValueRef h of
        (result, h1) \<Rightarrow>
          (case EnqueueBlockingWork_void h1 (emplace_work result work) of
             (enqueued, h2) \<Rightarrow>
               if \<not> enqueued
               then map_option (Pair result)
                      (on_cells (SetError result ''Failed to enqueue blocking work.'') h2)
               else Some (result, h2)))"

definition RunBlockingWork ::
  "'a HostContext \<Rightarrow> (unit \<Rightarrow> 'a work_result) \<Rightarrow> (AsyncValueRef \<times> 'a HostContext) option" where
  "RunBlockingWork h work =
     (case MakeUnconstructedAsyncValueRef h of
        (result, h1) \<Rightarrow>
          (case RunBlockingWork_void h1 (emplace_work result work) of
             (enqueued, h2) \<Rightarrow>
               if \<not> enqueued
               then map_option (Pair result)
                      (on_cells (SetError result ''Failed to run blocking work.'') h2)
               else Some (result, h2)))"

section \<open>The CUDA kernels (kernels.cc)\<close>

text \<open>
  \<^verbatim>\<open>size_t\<close> is an unsigned and \<^verbatim>\<open>int64_t\<close> a signed 64-bit integer; both are 64-bit
  words, read with \<^verbatim>\<open>uint\<close> and with \<^verbatim>\<open>sint\<close>. Addresses are 64-bit words.
\<close>

type_synonym size_t = "64 word"

type_synonym int64_t = "64 word"

type_synonym Pointer = "64 word"

text \<open>
  The functions of \<^verbatim>\<open>tfrt::gpu::wrapper\<close> call into the vendor's driver. What the
  driver answers is a parameter of the model; contexts, streams and events are
  handles.
\<close>

record Driver =
  EventQuery :: "nat \<Rightarrow> bool Expected"
  EventSynchronize :: "nat \<Rightarrow> Error"
  CtxSetCurrent :: "nat \<Rightarrow> nat Expected"
  MemcpyAsync :: "nat \<Rightarrow> Pointer \<Rightarrow> Pointer \<Rightarrow> int64_t \<Rightarrow> nat \<Rightarrow> Error"

text \<open>The calls a kernel has made into the driver, in order.\<close>

datatype driver_call =
    CtxSetCurrent_call nat
  | MemcpyAsync_call nat Pointer Pointer int64_t nat

text \<open>
  \<^verbatim>\<open>MakeStringError(args...)\<close> writes its arguments to a string stream one after the
  other; integers are written in decimal.
\<close>

fun dec :: "nat \<Rightarrow> string" where
  "dec n = (if n < 10 then [''0123456789'' ! n]
            else dec (n div 10) @ [''0123456789'' ! (n mod 10)])"

declare dec.simps [simp del]

definition show_size_t :: "size_t \<Rightarrow> string" where
  "show_size_t n = dec (unat n)"

definition show_int64_t :: "int64_t \<Rightarrow> string" where
  "show_int64_t n = (if sint n < 0 then ''-'' @ dec (nat (- sint n)) else dec (nat (sint n)))"

definition MakeStringError :: "string list \<Rightarrow> ErrorInfo" where
  "MakeStringError parts = StringError (concat parts)"

subsection \<open>Memory copies\<close>

text \<open>
  \<^verbatim>\<open>GpuBuffer\<close> and \<^verbatim>\<open>HostBuffer\<close> are declared outside the sources. The kernels
  read a buffer's \<^verbatim>\<open>pointer()\<close> or \<^verbatim>\<open>data()\<close> and its \<^verbatim>\<open>size()\<close>, and for a
  \<^verbatim>\<open>GpuBuffer\<close> whether it is valid (\<^verbatim>\<open>!*buffer\<close> is true of a buffer that is not).
\<close>

record GpuBuffer =
  gpu_pointer :: Pointer
  gpu_size :: size_t
  gpu_valid :: bool

record HostBuffer =
  host_data :: Pointer
  host_size :: size_t

text \<open>
  \<^verbatim>\<open>CheckMemcpySizes(size_t dst_size, size_t src_size, int64_t copy_size)\<close>. In
  \<^verbatim>\<open>src_size < copy_size\<close> the \<^verbatim>\<open>int64_t\<close> is converted to the unsigned type: the
  same 64 bits, compared as unsigned numbers, which is the order of words.
\<close>

definition CheckMemcpySizes :: "size_t \<Rightarrow> size_t \<Rightarrow> int64_t \<Rightarrow> Error" where
  "CheckMemcpySizes dst_size src_size copy_size =
     (if src_size < copy_size then
        Some (MakeStringError
          [''source buffer is smaller ('', show_size_t src_size,
           '') than number of bytes to copy ('', show_int64_t copy_size, '')''])
      else if dst_size < copy_size then
        Some (MakeStringError
          [''destination buffer is smaller ('', show_size_t dst_size,
           '') than number of bytes to copy ('', show_int64_t copy_size, '')''])
      else None)"

text \<open>
  \<^verbatim>\<open>CudaMemcpyHtoD\<close> and \<^verbatim>\<open>CudaMemcpyDtoH\<close> take the list of driver calls made so
  far and return it extended by their own.
\<close>

definition CudaMemcpyHtoD ::
  "Driver \<Rightarrow> nat \<Rightarrow> GpuBuffer \<Rightarrow> HostBuffer \<Rightarrow> int64_t \<Rightarrow> nat \<Rightarrow> driver_call list
     \<Rightarrow> Error \<times> driver_call list" where
  "CudaMemcpyHtoD drv ctx dst src bytes_count stream calls =
     (case CheckMemcpySizes (gpu_size dst) (host_size src) bytes_count of
        Some error \<Rightarrow> (Some error, calls)
      | None \<Rightarrow>
          (case CtxSetCurrent drv ctx of
             Inl error \<Rightarrow> (Some error, calls @ [CtxSetCurrent_call ctx])
           | Inr current \<Rightarrow>
               (MemcpyAsync drv current (gpu_pointer dst) (host_data src) bytes_count stream,
                calls @ [CtxSetCurrent_call ctx,
                         MemcpyAsync_call current (gpu_pointer dst) (host_data src)
                           bytes_count stream])))"

definition CudaMemcpyDtoH ::
  "Driver \<Rightarrow> nat \<Rightarrow> HostBuffer \<Rightarrow> GpuBuffer \<Rightarrow> int64_t \<Rightarrow> nat \<Rightarrow> driver_call list
     \<Rightarrow> Error \<times> driver_call list" where
  "CudaMemcpyDtoH drv ctx dst src bytes_count stream calls =
     (case CheckMemcpySizes (host_size dst) (gpu_size src) bytes_count of
        Some error \<Rightarrow> (Some error, calls)
      | None \<Rightarrow>
          (case CtxSetCurrent drv ctx of
             Inl error \<Rightarrow> (Some error, calls @ [CtxSetCurrent_call ctx])
           | Inr current \<Rightarrow>
               (MemcpyAsync drv current (host_data dst) (gpu_pointer src) bytes_count stream,
                calls @ [CtxSetCurrent_call ctx,
                         MemcpyAsync_call current (host_data dst) (gpu_pointer src)
                           bytes_count stream])))"

subsection \<open>Event synchronization\<close>




subsection \<open>Tensors from buffers\<close>

text \<open>
  \<^verbatim>\<open>GetDType<T>()\<close> for the element types the kernel is registered with
  (\<^verbatim>\<open>int8_t\<close>, \<^verbatim>\<open>int32_t\<close>, \<^verbatim>\<open>int64_t\<close>, \<^verbatim>\<open>float\<close>, \<^verbatim>\<open>double\<close>), and the size of one
  element on the host. A shape is its dimensions; \<^verbatim>\<open>GetNumElements\<close> is their product,
  computed in 64 bits. \<^verbatim>\<open>DType\<close> and \<^verbatim>\<open>TensorShape\<close> are declared outside the
  sources.
\<close>

datatype DType = I8 | I32 | I64 | F32 | F64

fun GetHostSize :: "DType \<Rightarrow> size_t" where
  "GetHostSize I8 = 1"
| "GetHostSize I32 = 4"
| "GetHostSize I64 = 8"
| "GetHostSize F32 = 4"
| "GetHostSize F64 = 8"

record TensorShape =
  dims :: "int64_t list"

definition GetNumElements :: "TensorShape \<Rightarrow> int64_t" where
  "GetNumElements shape = prod_list (dims shape)"

text \<open>
  \<^verbatim>\<open>GpuCrtBuffer(pointer, size, deallocator)\<close>; the deallocator holds a reference to
  the buffer it will deallocate.
\<close>

record GpuCrtBuffer =
  crt_pointer :: Pointer
  crt_size :: size_t
  crt_deallocates :: GpuBuffer

record DenseGpuTensor =
  tensor_shape :: TensorShape
  tensor_dtype :: DType
  tensor_buffer :: GpuCrtBuffer

text \<open>
  \<^verbatim>\<open>CudaTensorMake<T>\<close>. The product \<^verbatim>\<open>shape.GetNumElements() * GetDType<T>().GetHostSize()\<close>
  is a product of 64-bit integers and wraps around. How a shape is written into the
  error message is defined outside the sources and is the parameter \<^verbatim>\<open>show_shape\<close>.
\<close>

definition CudaTensorMake ::
  "(TensorShape \<Rightarrow> string) \<Rightarrow> DType \<Rightarrow> GpuBuffer \<Rightarrow> TensorShape \<Rightarrow> DenseGpuTensor Expected" where
  "CudaTensorMake show_shape T buffer shape =
     (if \<not> gpu_valid buffer then
        Inl (MakeStringError [''Cannot make tensor from invalid (moved from?) buffer''])
      else if gpu_size buffer \<noteq> GetNumElements shape * GetHostSize T then
        Inl (MakeStringError
          [''tfrt_gpu.tensor.make failed: buffer_size ('', show_size_t (gpu_size buffer),
           '') is not equal to the number of elements in shape ('', show_shape shape,
           '') times element size ('', show_size_t (GetHostSize T), '')''])
      else
        Inr \<lparr>tensor_shape = shape, tensor_dtype = T,
             tensor_buffer = \<lparr>crt_pointer = gpu_pointer buffer, crt_size = gpu_size buffer,
                               crt_deallocates = buffer\<rparr>\<rparr>)"

section \<open>Concrete hosts and inputs\<close>

text \<open>
  A host whose blocking queue and blocking threads are saturated, and one that has
  room; both hold one resolved cell.
\<close>

definition saturated_host :: "nat HostContext" where
  "saturated_host =
     \<lparr>cells = [Concrete 1], non_blocking_queue = [],
      blocking_queue = [Some], blocking_queue_capacity = 1,
      blocking_threads = [Some], blocking_thread_limit = 1\<rparr>"

definition idle_host :: "nat HostContext" where
  "idle_host =
     \<lparr>cells = [Concrete 1], non_blocking_queue = [],
      blocking_queue = [], blocking_queue_capacity = 1,
      blocking_threads = [], blocking_thread_limit = 1\<rparr>"

text \<open>
  A driver: event 0 is invalid, event 1 has completed, events 2 and 3 are pending;
  synchronizing on event 2 succeeds and on event 3 fails. A host for kernels that
  produce chains, with room for one unit of blocking work.
\<close>

definition example_driver :: Driver where
  "example_driver =
     \<lparr>EventQuery = (\<lambda>event. if event = 0 then Inl (StringError ''invalid event'')
                              else Inr (event = 1)),
      EventSynchronize = (\<lambda>event. if event = 2 then None else Some (StringError ''sync failed'')),
      CtxSetCurrent = (\<lambda>ctx. Inr ctx),
      MemcpyAsync = (\<lambda>current dst src count stream. None)\<rparr>"



text \<open>Buffers of 4 and of 16 bytes, on the device and on the host.\<close>

definition small_gpu_buffer :: GpuBuffer where
  "small_gpu_buffer = \<lparr>gpu_pointer = 4096, gpu_size = 4, gpu_valid = True\<rparr>"

definition large_gpu_buffer :: GpuBuffer where
  "large_gpu_buffer = \<lparr>gpu_pointer = 8192, gpu_size = 16, gpu_valid = True\<rparr>"

definition small_host_buffer :: HostBuffer where
  "small_host_buffer = \<lparr>host_data = 65536, host_size = 4\<rparr>"

definition large_host_buffer :: HostBuffer where
  "large_host_buffer = \<lparr>host_data = 131072, host_size = 16\<rparr>"

text \<open>
  A shape of \<^verbatim>\<open>2^61 + 1\<close> elements, and a valid buffer of 8 bytes.
\<close>

definition wrapping_shape :: TensorShape where
  "wrapping_shape = \<lparr>dims = [2305843009213693953]\<rparr>"

definition eight_byte_buffer :: GpuBuffer where
  "eight_byte_buffer = \<lparr>gpu_pointer = 4096, gpu_size = 8, gpu_valid = True\<rparr>"

section \<open>Properties of the adapter\<close>

lemma call_sync_eq:
  "call_sync f args w =
     (fst (f args (state w)), \<lparr>sync_calls = Suc (sync_calls w), state = snd (f args (state w))\<rparr>)"
  by (simp add: call_sync_def split: prod.splits)

text \<open>
  Claim C1. For each of the four return shapes the adapter has a specialization for,
  and for every wrapped function and argument list, \<^verbatim>\<open>Invoke\<close> makes exactly one
  call through \<^verbatim>\<open>sync_func_ptr\<close> (the call counter goes up by one) and does so
  synchronously: the state it returns is the state that one call left, so nothing is
  added to any work queue by the adapter itself. When the wrapped function succeeds,
  the result is the function's results followed by one \<^verbatim>\<open>Chain{}\<close> as its last
  element.
\<close>

theorem Invoke_calls_once_and_appends_Chain:
  "Invoke_void fv args1 w1 =
     (Chain, \<lparr>sync_calls = Suc (sync_calls w1), state = snd (fv args1 (state w1))\<rparr>)
   \<and> snd (Invoke_Error fe args2 w2) =
       \<lparr>sync_calls = Suc (sync_calls w2), state = snd (fe args2 (state w2))\<rparr>
   \<and> (fst (fe args2 (state w2)) = None \<longrightarrow> fst (Invoke_Error fe args2 w2) = Inr Chain)
   \<and> snd (Invoke_Expected fx args3 w3) =
       \<lparr>sync_calls = Suc (sync_calls w3), state = snd (fx args3 (state w3))\<rparr>
   \<and> (\<forall>v. fst (fx args3 (state w3)) = Inr v \<longrightarrow>
          fst (Invoke_Expected fx args3 w3) = Inr (v, Chain))
   \<and> snd (Invoke_Expected_tuple ft args4 w4) =
       \<lparr>sync_calls = Suc (sync_calls w4), state = snd (ft args4 (state w4))\<rparr>
   \<and> (\<forall>vs. fst (ft args4 (state w4)) = Inr vs \<longrightarrow>
          fst (Invoke_Expected_tuple ft args4 w4) = Inr (map Result vs @ [Token Chain]))"
proof -
  have void: "Invoke_void fv args1 w1 =
     (Chain, \<lparr>sync_calls = Suc (sync_calls w1), state = snd (fv args1 (state w1))\<rparr>)"
    by (simp add: Invoke_void_def call_sync_eq)
  have err: "snd (Invoke_Error fe args2 w2) =
       \<lparr>sync_calls = Suc (sync_calls w2), state = snd (fe args2 (state w2))\<rparr>"
    by (simp add: Invoke_Error_def call_sync_eq split: option.splits)
  have err_ok: "fst (fe args2 (state w2)) = None \<longrightarrow> fst (Invoke_Error fe args2 w2) = Inr Chain"
    by (simp add: Invoke_Error_def call_sync_eq)
  have exp: "snd (Invoke_Expected fx args3 w3) =
       \<lparr>sync_calls = Suc (sync_calls w3), state = snd (fx args3 (state w3))\<rparr>"
    by (simp add: Invoke_Expected_def call_sync_eq split: sum.splits)
  have exp_ok: "\<forall>v. fst (fx args3 (state w3)) = Inr v \<longrightarrow>
          fst (Invoke_Expected fx args3 w3) = Inr (v, Chain)"
    by (simp add: Invoke_Expected_def call_sync_eq)
  have tup: "snd (Invoke_Expected_tuple ft args4 w4) =
       \<lparr>sync_calls = Suc (sync_calls w4), state = snd (ft args4 (state w4))\<rparr>"
    by (simp add: Invoke_Expected_tuple_def call_sync_eq split: sum.splits)
  have tup_ok: "\<forall>vs. fst (ft args4 (state w4)) = Inr vs \<longrightarrow>
          fst (Invoke_Expected_tuple ft args4 w4) = Inr (map Result vs @ [Token Chain])"
    by (simp add: Invoke_Expected_tuple_def call_sync_eq)
  from void err err_ok exp exp_ok tup tup_ok show ?thesis by blast
qed

text \<open>
  The theorem at concrete kernels on a state that is a counter: each adds its argument
  to the counter and succeeds.
\<close>

theorem Invoke_calls_once_and_appends_Chain_witness:
  "Invoke_void (\<lambda>a s. ((), s + a)) (2::nat) \<lparr>sync_calls = 0, state = (5::nat)\<rparr>
     = (Chain, \<lparr>sync_calls = 1, state = 7\<rparr>)
   \<and> Invoke_Error (\<lambda>a s. (None, s + a)) (2::nat) \<lparr>sync_calls = 0, state = (5::nat)\<rparr>
     = (Inr Chain, \<lparr>sync_calls = 1, state = 7\<rparr>)
   \<and> Invoke_Expected (\<lambda>a s. (Inr (s * a), s + a)) (2::nat) \<lparr>sync_calls = 0, state = (5::nat)\<rparr>
     = (Inr (10, Chain), \<lparr>sync_calls = 1, state = 7\<rparr>)
   \<and> Invoke_Expected_tuple (\<lambda>a s. (Inr [s, a], s + a)) (2::nat) \<lparr>sync_calls = 0, state = (5::nat)\<rparr>
     = (Inr [Result 5, Result 2, Token Chain], \<lparr>sync_calls = 1, state = 7\<rparr>)"
  using Invoke_calls_once_and_appends_Chain
    [of "\<lambda>a s. ((), s + a)" "2::nat" "\<lparr>sync_calls = 0, state = (5::nat)\<rparr>"
        "\<lambda>a s. (None, s + a)" "2::nat" "\<lparr>sync_calls = 0, state = (5::nat)\<rparr>"
        "\<lambda>a s. (Inr (s * a), s + a)" "2::nat" "\<lparr>sync_calls = 0, state = (5::nat)\<rparr>"
        "\<lambda>a s. (Inr [s, a], s + a)" "2::nat" "\<lparr>sync_calls = 0, state = (5::nat)\<rparr>"]
  by (simp add: prod_eq_iff)

text \<open>
  Claim C4. For each fallible return shape (\<^verbatim>\<open>Error\<close>, \<^verbatim>\<open>Expected<V>\<close>,
  \<^verbatim>\<open>Expected<std::tuple<...>>\<close>) and every argument list on which the wrapped function
  fails with an error, \<^verbatim>\<open>Invoke\<close> returns that same error, unmodified, in the error
  alternative of its result, which holds no \<^verbatim>\<open>Chain\<close>.
\<close>

theorem Invoke_returns_the_error_of_the_wrapped_function:
  "(\<forall>e. fst (fe args2 (state w2)) = Some e \<longrightarrow> fst (Invoke_Error fe args2 w2) = Inl e)
   \<and> (\<forall>e. fst (fx args3 (state w3)) = Inl e \<longrightarrow> fst (Invoke_Expected fx args3 w3) = Inl e)
   \<and> (\<forall>e. fst (ft args4 (state w4)) = Inl e \<longrightarrow>
          fst (Invoke_Expected_tuple ft args4 w4) = Inl e)"
proof -
  have err: "\<forall>e. fst (fe args2 (state w2)) = Some e \<longrightarrow> fst (Invoke_Error fe args2 w2) = Inl e"
    by (simp add: Invoke_Error_def call_sync_eq)
  have exp: "\<forall>e. fst (fx args3 (state w3)) = Inl e \<longrightarrow> fst (Invoke_Expected fx args3 w3) = Inl e"
    by (simp add: Invoke_Expected_def call_sync_eq)
  have tup: "\<forall>e. fst (ft args4 (state w4)) = Inl e \<longrightarrow>
          fst (Invoke_Expected_tuple ft args4 w4) = Inl e"
    by (simp add: Invoke_Expected_tuple_def call_sync_eq)
  from err exp tup show ?thesis by blast
qed

text \<open>The theorem at concrete kernels that fail with the error \<^verbatim>\<open>boom\<close>.\<close>

theorem Invoke_returns_the_error_of_the_wrapped_function_witness:
  "fst (Invoke_Error (\<lambda>a s. (Some (StringError ''boom''), s + a)) (2::nat)
          \<lparr>sync_calls = 0, state = (5::nat)\<rparr>) = Inl (StringError ''boom'')
   \<and> fst (Invoke_Expected (\<lambda>a s. (Inl (StringError ''boom'') :: nat Expected, s + a)) (2::nat)
          \<lparr>sync_calls = 0, state = (5::nat)\<rparr>) = Inl (StringError ''boom'')
   \<and> fst (Invoke_Expected_tuple (\<lambda>a s. (Inl (StringError ''boom'') :: nat list Expected, s + a))
          (2::nat) \<lparr>sync_calls = 0, state = (5::nat)\<rparr>) = Inl (StringError ''boom'')"
  using Invoke_returns_the_error_of_the_wrapped_function
    [of "\<lambda>a s. (Some (StringError ''boom''), s + a)" "2::nat" "\<lparr>sync_calls = 0, state = (5::nat)\<rparr>"
        "\<lambda>a s. (Inl (StringError ''boom'') :: nat Expected, s + a)" "2::nat"
        "\<lparr>sync_calls = 0, state = (5::nat)\<rparr>"
        "\<lambda>a s. (Inl (StringError ''boom'') :: nat list Expected, s + a)" "2::nat"
        "\<lparr>sync_calls = 0, state = (5::nat)\<rparr>"]
  by simp

text \<open>
  Claim C5, as stated, fails: a function that returns a plain value type \<^verbatim>\<open>V\<close>, here
  \<^verbatim>\<open>int32_t\<close>, has one of the four shapes the specification lists, and no
  specialization of \<^verbatim>\<open>WithChainResult\<close> matches it.
\<close>

theorem plain_value_shape_not_convertible:
  "spec_return_shape (Plain ''int32_t'') \<and> WithChainResult (Plain ''int32_t'') = None"
  by simp

text \<open>
  Claim C5, amended. The adapter accepts exactly the functions whose declared return
  type is \<^verbatim>\<open>void\<close>, \<^verbatim>\<open>Error\<close> or \<^verbatim>\<open>Expected<V>\<close> (with its own case for
  \<^verbatim>\<open>Expected<std::tuple<...>>\<close>): the selected \<^verbatim>\<open>Invoke\<close> returns \<^verbatim>\<open>Chain\<close>,
  \<^verbatim>\<open>Expected<Chain>\<close>, \<^verbatim>\<open>Expected<std::tuple<V, Chain>>\<close> and
  \<^verbatim>\<open>Expected<std::tuple<..., Chain>>\<close> respectively, and the selection depends on the
  declared return type alone.
\<close>

theorem WithChainResult_accepts_exactly:
  "(WithChainResult t \<noteq> None) = (t = Void \<or> t = ErrorT \<or> (\<exists>r. t = ExpectedT r))
   \<and> WithChainResult Void = Some ChainT
   \<and> WithChainResult ErrorT = Some (ExpectedT ChainT)
   \<and> WithChainResult (ExpectedT (TupleT rs)) = Some (ExpectedT (TupleT (rs @ [ChainT])))
   \<and> ((\<exists>rs. r = TupleT rs) \<or>
        WithChainResult (ExpectedT r) = Some (ExpectedT (TupleT [r, ChainT])))"
proof -
  have accepts: "(WithChainResult t \<noteq> None) = (t = Void \<or> t = ErrorT \<or> (\<exists>r. t = ExpectedT r))"
    by (induction t rule: WithChainResult.induct) simp_all
  have single: "(\<exists>rs. r = TupleT rs) \<or>
        WithChainResult (ExpectedT r) = Some (ExpectedT (TupleT [r, ChainT]))"
    by (cases r) simp_all
  from accepts single show ?thesis by simp
qed

section \<open>Properties of work dispatch\<close>

lemma MakeUnconstructedAsyncValueRef_eq:
  "MakeUnconstructedAsyncValueRef h = (r, h1) \<longleftrightarrow>
     r = length (cells h) \<and> h1 = h\<lparr>cells := cells h @ [Unconstructed]\<rparr>"
  by (auto simp: MakeUnconstructedAsyncValueRef_def)

lemma SetError_fresh:
  "SetError (length st) msg (st @ [Unconstructed]) = Some (st @ [ErrorState msg])"
  by (simp add: SetError_def)

lemma emplace_work_unresolved:
  "r < length st \<Longrightarrow> \<not> IsAvailable (st ! r) \<Longrightarrow>
     emplace_work r work st =
       Some (st[r := (case work () of Value v \<Rightarrow> Concrete v
                      | Fallible (Inr v) \<Rightarrow> Concrete v
                      | Fallible (Inl e) \<Rightarrow> ErrorState (StrCat e))])"
  by (cases "(r, work (), st)" rule: emplace_result.cases)
     (simp_all add: emplace_work_def emplace_def SetError_def)

text \<open>
  Claim C2. In the typed overloads of \<^verbatim>\<open>EnqueueBlockingWork\<close> and \<^verbatim>\<open>RunBlockingWork\<close>,
  \<^verbatim>\<open>result\<close> is the cell allocated for the submission and \<^verbatim>\<open>h1\<close> the host after the
  allocation. If the underlying bool-returning function returns false on the closure
  submitted, the overload returns with the cell resolved: it holds the error
  "Failed to enqueue blocking work." or "Failed to run blocking work.", and nothing
  else of the host has changed.
\<close>

theorem rejected_submission_resolves_future_with_error:
  assumes "MakeUnconstructedAsyncValueRef h = (result, h1)"
  shows "(\<not> fst (EnqueueBlockingWork_void h1 (emplace_work result work)) \<longrightarrow>
            EnqueueBlockingWork h work =
              Some (result, h\<lparr>cells := cells h @ [ErrorState ''Failed to enqueue blocking work.'']\<rparr>)
            \<and> (cells h @ [ErrorState ''Failed to enqueue blocking work.'']) ! result
                = ErrorState ''Failed to enqueue blocking work.'')
       \<and> (\<not> fst (RunBlockingWork_void h1 (emplace_work result work)) \<longrightarrow>
            RunBlockingWork h work =
              Some (result, h\<lparr>cells := cells h @ [ErrorState ''Failed to run blocking work.'']\<rparr>)
            \<and> (cells h @ [ErrorState ''Failed to run blocking work.'']) ! result
                = ErrorState ''Failed to run blocking work.'')"
proof -
  from assms have r: "result = length (cells h)" and h1: "h1 = h\<lparr>cells := cells h @ [Unconstructed]\<rparr>"
    by (simp_all add: MakeUnconstructedAsyncValueRef_eq)
  have enq: "\<not> fst (EnqueueBlockingWork_void h1 (emplace_work result work)) \<longrightarrow>
            EnqueueBlockingWork h work =
              Some (result, h\<lparr>cells := cells h @ [ErrorState ''Failed to enqueue blocking work.'']\<rparr>)"
    by (simp add: r h1 EnqueueBlockingWork_def EnqueueBlockingWork_void_def
        MakeUnconstructedAsyncValueRef_def on_cells_def SetError_fresh)
  have run: "\<not> fst (RunBlockingWork_void h1 (emplace_work result work)) \<longrightarrow>
            RunBlockingWork h work =
              Some (result, h\<lparr>cells := cells h @ [ErrorState ''Failed to run blocking work.'']\<rparr>)"
    by (simp add: r h1 RunBlockingWork_def RunBlockingWork_void_def
        MakeUnconstructedAsyncValueRef_def on_cells_def SetError_fresh)
  from enq run show ?thesis by (simp add: r)
qed

text \<open>The theorem on the saturated host, which rejects both submissions.\<close>

theorem rejected_submission_resolves_future_with_error_witness:
  "EnqueueBlockingWork saturated_host (\<lambda>_. Value 7) =
     Some (1, saturated_host\<lparr>cells := [Concrete 1, ErrorState ''Failed to enqueue blocking work.'']\<rparr>)
   \<and> RunBlockingWork saturated_host (\<lambda>_. Value 7) =
     Some (1, saturated_host\<lparr>cells := [Concrete 1, ErrorState ''Failed to run blocking work.'']\<rparr>)"
proof -
  have alloc: "MakeUnconstructedAsyncValueRef saturated_host =
      (1, saturated_host\<lparr>cells := [Concrete 1, Unconstructed]\<rparr>)"
    by (simp add: MakeUnconstructedAsyncValueRef_def saturated_host_def)
  have enq: "\<not> fst (EnqueueBlockingWork_void (saturated_host\<lparr>cells := [Concrete 1, Unconstructed]\<rparr>)
      (emplace_work 1 (\<lambda>_. Value 7)))"
    by (simp add: EnqueueBlockingWork_void_def saturated_host_def)
  have run: "\<not> fst (RunBlockingWork_void (saturated_host\<lparr>cells := [Concrete 1, Unconstructed]\<rparr>)
      (emplace_work 1 (\<lambda>_. Value 7)))"
    by (simp add: RunBlockingWork_void_def saturated_host_def)
  have c: "cells saturated_host = [Concrete 1]"
    by (simp add: saturated_host_def)
  from rejected_submission_resolves_future_with_error [OF alloc, of "\<lambda>_. Value 7"] enq run c
  show ?thesis by simp
qed

text \<open>
  Claim C3, as stated, fails: a closure submitted to \<^verbatim>\<open>EnqueueBlockingWork\<close> or
  \<^verbatim>\<open>RunBlockingWork\<close> on a saturated host gets back a reference that is already
  resolved, with the submission error, and the closure (which returns 7) is not added to
  any queue, so it never resolves the cell.
\<close>

theorem rejected_submission_returns_resolved_future:
  "(case EnqueueBlockingWork saturated_host (\<lambda>_. Value 7) of
      None \<Rightarrow> False
    | Some (r, h') \<Rightarrow>
        IsAvailable (cells h' ! r)
        \<and> cells h' ! r = ErrorState ''Failed to enqueue blocking work.''
        \<and> blocking_queue h' = blocking_queue saturated_host)
   \<and> (case RunBlockingWork saturated_host (\<lambda>_. Value 7) of
      None \<Rightarrow> False
    | Some (r, h') \<Rightarrow>
        IsAvailable (cells h' ! r)
        \<and> cells h' ! r = ErrorState ''Failed to run blocking work.''
        \<and> blocking_threads h' = blocking_threads saturated_host)"
  by (simp add: EnqueueBlockingWork_def EnqueueBlockingWork_void_def
      RunBlockingWork_def RunBlockingWork_void_def
      MakeUnconstructedAsyncValueRef_def on_cells_def SetError_def saturated_host_def)

text \<open>
  Claim C3, amended. \<^verbatim>\<open>result\<close> is the cell allocated for the submission and \<^verbatim>\<open>h1\<close>
  the host after the allocation. \<^verbatim>\<open>EnqueueWork\<close> always, and \<^verbatim>\<open>EnqueueBlockingWork\<close>
  and \<^verbatim>\<open>RunBlockingWork\<close> when the underlying function accepts the closure, return the
  reference to the cell, which is unconstructed, and add exactly the closure
  \<^verbatim>\<open>result.emplace(work())\<close> to the accepted work. When that closure runs on a store
  where the cell is still unresolved, it resolves the cell: with the value a plain
  closure returned, with the value of a successful \<^verbatim>\<open>Expected\<close>, or with the error of a
  failed one, and with nothing else.
\<close>

theorem accepted_submission_returns_unresolved_future:
  assumes "MakeUnconstructedAsyncValueRef h = (result, h1)"
  shows "EnqueueWork h work =
           (result, h1\<lparr>non_blocking_queue := non_blocking_queue h @ [emplace_work result work]\<rparr>)
       \<and> (fst (EnqueueBlockingWork_void h1 (emplace_work result work)) \<longrightarrow>
            EnqueueBlockingWork h work =
              Some (result, h1\<lparr>blocking_queue := blocking_queue h @ [emplace_work result work]\<rparr>))
       \<and> (fst (RunBlockingWork_void h1 (emplace_work result work)) \<longrightarrow>
            RunBlockingWork h work =
              Some (result, h1\<lparr>blocking_threads := blocking_threads h @ [emplace_work result work]\<rparr>))
       \<and> cells h1 ! result = Unconstructed
       \<and> (\<forall>st. result < length st \<and> \<not> IsAvailable (st ! result) \<longrightarrow>
            emplace_work result work st =
              Some (st[result := (case work () of
                                    Value v \<Rightarrow> Concrete v
                                  | Fallible (Inr v) \<Rightarrow> Concrete v
                                  | Fallible (Inl e) \<Rightarrow> ErrorState (StrCat e))]))"
proof -
  from assms have r: "result = length (cells h)" and h1: "h1 = h\<lparr>cells := cells h @ [Unconstructed]\<rparr>"
    by (simp_all add: MakeUnconstructedAsyncValueRef_eq)
  have nb: "EnqueueWork h work =
           (result, h1\<lparr>non_blocking_queue := non_blocking_queue h @ [emplace_work result work]\<rparr>)"
    by (simp add: r h1 EnqueueWork_def EnqueueWork_void_def MakeUnconstructedAsyncValueRef_def)
  have enq: "fst (EnqueueBlockingWork_void h1 (emplace_work result work)) \<longrightarrow>
            EnqueueBlockingWork h work =
              Some (result, h1\<lparr>blocking_queue := blocking_queue h @ [emplace_work result work]\<rparr>)"
    by (simp add: r h1 EnqueueBlockingWork_def EnqueueBlockingWork_void_def
        MakeUnconstructedAsyncValueRef_def)
  have run: "fst (RunBlockingWork_void h1 (emplace_work result work)) \<longrightarrow>
            RunBlockingWork h work =
              Some (result, h1\<lparr>blocking_threads := blocking_threads h @ [emplace_work result work]\<rparr>)"
    by (simp add: r h1 RunBlockingWork_def RunBlockingWork_void_def
        MakeUnconstructedAsyncValueRef_def)
  have cell: "cells h1 ! result = Unconstructed"
    by (simp add: r h1)
  have exec: "\<forall>st. result < length st \<and> \<not> IsAvailable (st ! result) \<longrightarrow>
            emplace_work result work st =
              Some (st[result := (case work () of
                                    Value v \<Rightarrow> Concrete v
                                  | Fallible (Inr v) \<Rightarrow> Concrete v
                                  | Fallible (Inl e) \<Rightarrow> ErrorState (StrCat e))])"
    by (simp add: emplace_work_unresolved)
  from nb enq run cell exec show ?thesis by blast
qed

text \<open>
  The theorem on the idle host, for a closure returning 7, and the run of the closure
  for each of the three kinds of return value.
\<close>

theorem accepted_submission_returns_unresolved_future_witness:
  "EnqueueWork idle_host (\<lambda>_. Value 7) =
     (1, idle_host\<lparr>cells := [Concrete 1, Unconstructed],
                    non_blocking_queue := [emplace_work 1 (\<lambda>_. Value 7)]\<rparr>)
   \<and> EnqueueBlockingWork idle_host (\<lambda>_. Value 7) =
     Some (1, idle_host\<lparr>cells := [Concrete 1, Unconstructed],
                          blocking_queue := [emplace_work 1 (\<lambda>_. Value 7)]\<rparr>)
   \<and> RunBlockingWork idle_host (\<lambda>_. Value 7) =
     Some (1, idle_host\<lparr>cells := [Concrete 1, Unconstructed],
                          blocking_threads := [emplace_work 1 (\<lambda>_. Value 7)]\<rparr>)
   \<and> emplace_work 1 (\<lambda>_. Value 7) [Concrete 1, Unconstructed] = Some [Concrete 1, Concrete (7::nat)]
   \<and> emplace_work 1 (\<lambda>_. Fallible (Inr 8)) [Concrete 1, Unconstructed]
       = Some [Concrete 1, Concrete (8::nat)]
   \<and> emplace_work 1 (\<lambda>_. Fallible (Inl (StringError ''boom''))) [Concrete 1, Unconstructed]
       = Some [Concrete (1::nat), ErrorState ''boom'']"
proof -
  have alloc: "MakeUnconstructedAsyncValueRef idle_host =
      (1, idle_host\<lparr>cells := [Concrete 1, Unconstructed]\<rparr>)"
    by (simp add: MakeUnconstructedAsyncValueRef_def idle_host_def)
  have enq: "fst (EnqueueBlockingWork_void (idle_host\<lparr>cells := [Concrete 1, Unconstructed]\<rparr>)
      (emplace_work 1 (\<lambda>_. Value 7)))"
    by (simp add: EnqueueBlockingWork_void_def idle_host_def)
  have run: "fst (RunBlockingWork_void (idle_host\<lparr>cells := [Concrete 1, Unconstructed]\<rparr>)
      (emplace_work 1 (\<lambda>_. Value 7)))"
    by (simp add: RunBlockingWork_void_def idle_host_def)
  have q: "non_blocking_queue idle_host = []" "blocking_queue idle_host = []"
    "blocking_threads idle_host = []"
    by (simp_all add: idle_host_def)
  have st: "1 < length [Concrete (1::nat), Unconstructed]
      \<and> \<not> IsAvailable ([Concrete (1::nat), Unconstructed] ! 1)"
    by simp
  note t = accepted_submission_returns_unresolved_future [OF alloc]
  from t [of "\<lambda>_. Value 7"] enq run q st
  have a: "EnqueueWork idle_host (\<lambda>_. Value 7) =
     (1, idle_host\<lparr>cells := [Concrete 1, Unconstructed],
                    non_blocking_queue := [emplace_work 1 (\<lambda>_. Value 7)]\<rparr>)
   \<and> EnqueueBlockingWork idle_host (\<lambda>_. Value 7) =
     Some (1, idle_host\<lparr>cells := [Concrete 1, Unconstructed],
                          blocking_queue := [emplace_work 1 (\<lambda>_. Value 7)]\<rparr>)
   \<and> RunBlockingWork idle_host (\<lambda>_. Value 7) =
     Some (1, idle_host\<lparr>cells := [Concrete 1, Unconstructed],
                          blocking_threads := [emplace_work 1 (\<lambda>_. Value 7)]\<rparr>)
   \<and> emplace_work 1 (\<lambda>_. Value 7) [Concrete 1, Unconstructed] = Some [Concrete 1, Concrete (7::nat)]"
    by simp
  from t [of "\<lambda>_. Fallible (Inr 8)"] st
  have b: "emplace_work 1 (\<lambda>_. Fallible (Inr 8)) [Concrete 1, Unconstructed]
       = Some [Concrete 1, Concrete (8::nat)]"
    by simp
  from t [of "\<lambda>_. Fallible (Inl (StringError ''boom''))"] st
  have c: "emplace_work 1 (\<lambda>_. Fallible (Inl (StringError ''boom''))) [Concrete 1, Unconstructed]
       = Some [Concrete (1::nat), ErrorState ''boom'']"
    by (simp add: StrCat_def)
  from a b c show ?thesis by simp
qed

text \<open>
  Claim C6. Non-blocking enqueue has no rejection: the form taking a void closure
  returns nothing but the host, with the closure added to the non-blocking queue,
  whatever the host holds; the typed overload returns the reference to an unconstructed
  cell, never an error, and the last unit of work in the queue is the closure
  \<^verbatim>\<open>result.emplace(work())\<close>; run on the host the call returned, that closure
  resolves the cell to what \<^verbatim>\<open>work\<close> itself returned: its value, or the error of a
  failed \<^verbatim>\<open>Expected\<close>.
\<close>

theorem EnqueueWork_always_accepted:
  "EnqueueWork_void h t = h\<lparr>non_blocking_queue := non_blocking_queue h @ [t]\<rparr>
   \<and> EnqueueWork h work =
       (length (cells h),
        h\<lparr>cells := cells h @ [Unconstructed],
           non_blocking_queue := non_blocking_queue h @ [emplace_work (length (cells h)) work]\<rparr>)
   \<and> cells (snd (EnqueueWork h work)) ! fst (EnqueueWork h work) = Unconstructed
   \<and> on_cells (last (non_blocking_queue (snd (EnqueueWork h work)))) (snd (EnqueueWork h work)) =
       Some ((snd (EnqueueWork h work))
               \<lparr>cells := cells h @ [case work () of
                                       Value v \<Rightarrow> Concrete v
                                     | Fallible (Inr v) \<Rightarrow> Concrete v
                                     | Fallible (Inl e) \<Rightarrow> ErrorState (StrCat e)]\<rparr>)"
proof -
  have eq: "EnqueueWork h work =
       (length (cells h),
        h\<lparr>cells := cells h @ [Unconstructed],
           non_blocking_queue := non_blocking_queue h @ [emplace_work (length (cells h)) work]\<rparr>)"
    by (simp add: EnqueueWork_def EnqueueWork_void_def MakeUnconstructedAsyncValueRef_def)
  have run: "emplace_work (length (cells h)) work (cells h @ [Unconstructed]) =
      Some ((cells h @ [Unconstructed])[length (cells h) :=
              (case work () of Value v \<Rightarrow> Concrete v
               | Fallible (Inr v) \<Rightarrow> Concrete v
               | Fallible (Inl e) \<Rightarrow> ErrorState (StrCat e))])"
    by (rule emplace_work_unresolved) simp_all
  show ?thesis
    by (simp add: eq run on_cells_def EnqueueWork_void_def)
qed

section \<open>Properties of the kernels\<close>







lemma sint_le_uint: "sint (c :: 'a::len word) \<le> uint c"
proof -
  have "- (2 ^ (LENGTH('a) - 1)) \<le> uint c"
    by (rule order_trans [of _ 0]) simp_all
  then show ?thesis
    by (simp add: sint_uint signed_take_bit_int_less_eq_self_iff)
qed

lemma sint_nonneg_eq_uint: "0 \<le> sint (c :: 'a::len word) \<Longrightarrow> sint c = uint c"
proof -
  assume nonneg: "0 \<le> sint c"
  have "sint c < 2 ^ (LENGTH('a) - 1)"
    by (rule sint_lt)
  also have "(2::int) ^ (LENGTH('a) - 1) \<le> 2 ^ LENGTH('a)"
    by (rule power_increasing) simp_all
  finally have "sint c < 2 ^ LENGTH('a)" .
  with nonneg have "take_bit LENGTH('a) (sint c) = sint c"
    by (simp add: take_bit_int_eq_self)
  then show ?thesis
    by (simp add: uint_sint)
qed

lemma CheckMemcpySizes_source:
  assumes "uint src_size < sint copy_size"
  shows "CheckMemcpySizes dst_size src_size copy_size =
     Some (MakeStringError
          [''source buffer is smaller ('', show_size_t src_size,
           '') than number of bytes to copy ('', show_int64_t copy_size, '')''])"
proof -
  from assms sint_le_uint [of copy_size] have "src_size < copy_size"
    by (simp add: word_less_def)
  then show ?thesis by (simp add: CheckMemcpySizes_def)
qed

lemma CheckMemcpySizes_destination:
  assumes "\<not> uint src_size < sint copy_size" and "uint dst_size < sint copy_size"
  shows "CheckMemcpySizes dst_size src_size copy_size =
     Some (MakeStringError
          [''destination buffer is smaller ('', show_size_t dst_size,
           '') than number of bytes to copy ('', show_int64_t copy_size, '')''])"
proof -
  from assms(2) have "0 \<le> sint copy_size"
    using uint_ge_0 [of dst_size] by linarith
  then have eq: "sint copy_size = uint copy_size"
    by (rule sint_nonneg_eq_uint)
  with assms have "\<not> src_size < copy_size" and "dst_size < copy_size"
    by (simp_all add: word_less_def)
  then show ?thesis by (simp add: CheckMemcpySizes_def)
qed

lemma CheckMemcpySizes_None:
  assumes "CheckMemcpySizes dst_size src_size copy_size = None"
  shows "sint copy_size \<le> uint src_size \<and> sint copy_size \<le> uint dst_size"
proof -
  from assms have "\<not> src_size < copy_size" and "\<not> dst_size < copy_size"
    by (simp_all add: CheckMemcpySizes_def split: if_splits)
  with sint_le_uint [of copy_size] show ?thesis
    by (simp add: word_less_def)
qed

text \<open>
  Claim C9. In \<^verbatim>\<open>CudaMemcpyHtoD\<close> and \<^verbatim>\<open>CudaMemcpyDtoH\<close>, if the size of the source
  buffer is less than the byte count, the kernel returns the error that names the
  source buffer, its size and the count; if not, and the size of the destination buffer
  is less than the byte count, the error that names the destination buffer; in both
  cases the list of driver calls is unchanged, so neither the context switch nor the
  copy was called. The kernel makes a driver call only when both sizes are at least the
  byte count. Sizes are read as unsigned and the byte count as a signed integer.
\<close>

theorem memcpy_checks_sizes_before_any_driver_call:
  "(uint (host_size src) < sint bytes_count \<longrightarrow>
      CudaMemcpyHtoD drv ctx dst src bytes_count stream calls =
        (Some (MakeStringError
           [''source buffer is smaller ('', show_size_t (host_size src),
            '') than number of bytes to copy ('', show_int64_t bytes_count, '')'']), calls))
   \<and> (\<not> uint (host_size src) < sint bytes_count \<and> uint (gpu_size dst) < sint bytes_count \<longrightarrow>
      CudaMemcpyHtoD drv ctx dst src bytes_count stream calls =
        (Some (MakeStringError
           [''destination buffer is smaller ('', show_size_t (gpu_size dst),
            '') than number of bytes to copy ('', show_int64_t bytes_count, '')'']), calls))
   \<and> (snd (CudaMemcpyHtoD drv ctx dst src bytes_count stream calls) \<noteq> calls \<longrightarrow>
      sint bytes_count \<le> uint (host_size src) \<and> sint bytes_count \<le> uint (gpu_size dst))
   \<and> (uint (gpu_size src') < sint bytes_count \<longrightarrow>
      CudaMemcpyDtoH drv ctx dst' src' bytes_count stream calls =
        (Some (MakeStringError
           [''source buffer is smaller ('', show_size_t (gpu_size src'),
            '') than number of bytes to copy ('', show_int64_t bytes_count, '')'']), calls))
   \<and> (\<not> uint (gpu_size src') < sint bytes_count \<and> uint (host_size dst') < sint bytes_count \<longrightarrow>
      CudaMemcpyDtoH drv ctx dst' src' bytes_count stream calls =
        (Some (MakeStringError
           [''destination buffer is smaller ('', show_size_t (host_size dst'),
            '') than number of bytes to copy ('', show_int64_t bytes_count, '')'']), calls))
   \<and> (snd (CudaMemcpyDtoH drv ctx dst' src' bytes_count stream calls) \<noteq> calls \<longrightarrow>
      sint bytes_count \<le> uint (gpu_size src') \<and> sint bytes_count \<le> uint (host_size dst'))"
proof -
  have h1: "uint (host_size src) < sint bytes_count \<longrightarrow>
      CudaMemcpyHtoD drv ctx dst src bytes_count stream calls =
        (Some (MakeStringError
           [''source buffer is smaller ('', show_size_t (host_size src),
            '') than number of bytes to copy ('', show_int64_t bytes_count, '')'']), calls)"
    by (simp add: CudaMemcpyHtoD_def CheckMemcpySizes_source)
  have h2: "\<not> uint (host_size src) < sint bytes_count \<and> uint (gpu_size dst) < sint bytes_count \<longrightarrow>
      CudaMemcpyHtoD drv ctx dst src bytes_count stream calls =
        (Some (MakeStringError
           [''destination buffer is smaller ('', show_size_t (gpu_size dst),
            '') than number of bytes to copy ('', show_int64_t bytes_count, '')'']), calls)"
    by (simp add: CudaMemcpyHtoD_def CheckMemcpySizes_destination)
  have h3: "snd (CudaMemcpyHtoD drv ctx dst src bytes_count stream calls) \<noteq> calls \<longrightarrow>
      sint bytes_count \<le> uint (host_size src) \<and> sint bytes_count \<le> uint (gpu_size dst)"
  proof (cases "CheckMemcpySizes (gpu_size dst) (host_size src) bytes_count")
    case None
    then show ?thesis by (simp add: CheckMemcpySizes_None)
  next
    case (Some error)
    then show ?thesis by (simp add: CudaMemcpyHtoD_def)
  qed
  have d1: "uint (gpu_size src') < sint bytes_count \<longrightarrow>
      CudaMemcpyDtoH drv ctx dst' src' bytes_count stream calls =
        (Some (MakeStringError
           [''source buffer is smaller ('', show_size_t (gpu_size src'),
            '') than number of bytes to copy ('', show_int64_t bytes_count, '')'']), calls)"
    by (simp add: CudaMemcpyDtoH_def CheckMemcpySizes_source)
  have d2: "\<not> uint (gpu_size src') < sint bytes_count \<and> uint (host_size dst') < sint bytes_count \<longrightarrow>
      CudaMemcpyDtoH drv ctx dst' src' bytes_count stream calls =
        (Some (MakeStringError
           [''destination buffer is smaller ('', show_size_t (host_size dst'),
            '') than number of bytes to copy ('', show_int64_t bytes_count, '')'']), calls)"
    by (simp add: CudaMemcpyDtoH_def CheckMemcpySizes_destination)
  have d3: "snd (CudaMemcpyDtoH drv ctx dst' src' bytes_count stream calls) \<noteq> calls \<longrightarrow>
      sint bytes_count \<le> uint (gpu_size src') \<and> sint bytes_count \<le> uint (host_size dst')"
  proof (cases "CheckMemcpySizes (host_size dst') (gpu_size src') bytes_count")
    case None
    then show ?thesis by (simp add: CheckMemcpySizes_None)
  next
    case (Some error)
    then show ?thesis by (simp add: CudaMemcpyDtoH_def)
  qed
  from h1 h2 h3 d1 d2 d3 show ?thesis by blast
qed

text \<open>
  The theorem for a copy of 8 bytes: from and to a buffer of 4 bytes, and between
  buffers of 16 bytes, where the driver is called.
\<close>

theorem memcpy_checks_sizes_before_any_driver_call_witness:
  "CudaMemcpyHtoD example_driver 5 large_gpu_buffer small_host_buffer 8 9 [] =
     (Some (StringError ''source buffer is smaller (4) than number of bytes to copy (8)''), [])
   \<and> CudaMemcpyHtoD example_driver 5 small_gpu_buffer large_host_buffer 8 9 [] =
     (Some (StringError ''destination buffer is smaller (4) than number of bytes to copy (8)''), [])
   \<and> sint (8 :: int64_t) \<le> uint (host_size large_host_buffer)
   \<and> sint (8 :: int64_t) \<le> uint (gpu_size large_gpu_buffer)
   \<and> CudaMemcpyDtoH example_driver 5 large_host_buffer small_gpu_buffer 8 9 [] =
     (Some (StringError ''source buffer is smaller (4) than number of bytes to copy (8)''), [])
   \<and> CudaMemcpyDtoH example_driver 5 small_host_buffer large_gpu_buffer 8 9 [] =
     (Some (StringError ''destination buffer is smaller (4) than number of bytes to copy (8)''), [])"
proof -
  have sizes: "uint (host_size small_host_buffer) < sint (8 :: int64_t)"
    "uint (gpu_size small_gpu_buffer) < sint (8 :: int64_t)"
    "\<not> uint (host_size large_host_buffer) < sint (8 :: int64_t)"
    "\<not> uint (gpu_size large_gpu_buffer) < sint (8 :: int64_t)"
    by (simp_all add: small_host_buffer_def small_gpu_buffer_def large_host_buffer_def
        large_gpu_buffer_def)
  have shown: "show_size_t (host_size small_host_buffer) = ''4''"
    "show_size_t (gpu_size small_gpu_buffer) = ''4''" "show_int64_t 8 = ''8''"
    by (simp_all add: show_size_t_def show_int64_t_def dec.simps small_host_buffer_def
        small_gpu_buffer_def)
  have copied: "snd (CudaMemcpyHtoD example_driver 5 large_gpu_buffer large_host_buffer 8 9 []) \<noteq> []"
    "snd (CudaMemcpyDtoH example_driver 5 large_host_buffer large_gpu_buffer 8 9 []) \<noteq> []"
    by (simp_all add: CudaMemcpyHtoD_def CudaMemcpyDtoH_def CheckMemcpySizes_def example_driver_def
        large_host_buffer_def large_gpu_buffer_def)
  note t = memcpy_checks_sizes_before_any_driver_call
    [where drv = example_driver and ctx = 5 and stream = 9 and calls = "[]"
       and bytes_count = 8]
  note a = t [where src = small_host_buffer and dst = large_gpu_buffer
       and src' = small_gpu_buffer and dst' = large_host_buffer]
  note b = t [where src = large_host_buffer and dst = small_gpu_buffer
       and src' = large_gpu_buffer and dst' = small_host_buffer]
  note c = t [where src = large_host_buffer and dst = large_gpu_buffer
       and src' = large_gpu_buffer and dst' = large_host_buffer]
  from a [THEN conjunct1, rule_format, OF sizes(1)]
  have h1: "CudaMemcpyHtoD example_driver 5 large_gpu_buffer small_host_buffer 8 9 [] =
     (Some (StringError ''source buffer is smaller (4) than number of bytes to copy (8)''), [])"
    by (simp add: shown MakeStringError_def)
  from b [THEN conjunct2, THEN conjunct1, rule_format, OF conjI, OF sizes(3) sizes(2)]
  have h2: "CudaMemcpyHtoD example_driver 5 small_gpu_buffer large_host_buffer 8 9 [] =
     (Some (StringError ''destination buffer is smaller (4) than number of bytes to copy (8)''), [])"
    by (simp add: shown MakeStringError_def)
  from c [THEN conjunct2, THEN conjunct2, THEN conjunct1, rule_format, OF copied(1)]
  have h3: "sint (8 :: int64_t) \<le> uint (host_size large_host_buffer)
      \<and> sint (8 :: int64_t) \<le> uint (gpu_size large_gpu_buffer)" .
  from a [THEN conjunct2, THEN conjunct2, THEN conjunct2, THEN conjunct1, rule_format, OF sizes(2)]
  have d1: "CudaMemcpyDtoH example_driver 5 large_host_buffer small_gpu_buffer 8 9 [] =
     (Some (StringError ''source buffer is smaller (4) than number of bytes to copy (8)''), [])"
    by (simp add: shown MakeStringError_def)
  from b [THEN conjunct2, THEN conjunct2, THEN conjunct2, THEN conjunct2, THEN conjunct1,
      rule_format, OF conjI, OF sizes(4) sizes(1)]
  have d2: "CudaMemcpyDtoH example_driver 5 small_host_buffer large_gpu_buffer 8 9 [] =
     (Some (StringError ''destination buffer is smaller (4) than number of bytes to copy (8)''), [])"
    by (simp add: shown MakeStringError_def)
  from c [THEN conjunct2, THEN conjunct2, THEN conjunct2, THEN conjunct2, THEN conjunct2,
      rule_format, OF copied(2)]
  have d3: "sint (8 :: int64_t) \<le> uint (gpu_size large_gpu_buffer)
      \<and> sint (8 :: int64_t) \<le> uint (host_size large_host_buffer)" .
  from h1 h2 h3 d1 d2 d3 show ?thesis by blast
qed

text \<open>
  Claim C10 fails on the code where the product wraps around. For \<^verbatim>\<open>int64_t\<close>
  elements, a shape of \<^verbatim>\<open>2^61 + 1\<close> elements and a valid buffer of 8 bytes, the
  element count times the element size is \<^verbatim>\<open>2^64 + 8\<close>, which differs from the size
  of the buffer, and \<^verbatim>\<open>CudaTensorMake\<close> returns a tensor of that shape on the 8 bytes
  instead of an error.
\<close>

theorem CudaTensorMake_accepts_wrapped_product:
  "CudaTensorMake (\<lambda>shape. ''[2305843009213693953]'') I64 eight_byte_buffer wrapping_shape =
     Inr \<lparr>tensor_shape = wrapping_shape, tensor_dtype = I64,
          tensor_buffer = \<lparr>crt_pointer = 4096, crt_size = 8,
                            crt_deallocates = eight_byte_buffer\<rparr>\<rparr>
   \<and> gpu_valid eight_byte_buffer
   \<and> uint (gpu_size eight_byte_buffer) = 8
   \<and> sint (GetNumElements wrapping_shape) * uint (GetHostSize I64) = 18446744073709551624"
  by (simp add: CudaTensorMake_def GetNumElements_def wrapping_shape_def eight_byte_buffer_def)

text \<open>
  Where the element count is not negative and the product fits in 64 bits, the kernel
  returns an error exactly when the buffer is invalid or its size differs from the
  product; and a tensor it returns has the given shape, the dtype of \<^verbatim>\<open>T\<close>, and
  the pointer and the size of the buffer.
\<close>

lemma uint_product_fits:
  assumes "0 \<le> sint (n :: 64 word)" and "sint n * uint (k :: 64 word) < 2 ^ 64"
  shows "uint (n * k) = sint n * uint k"
proof -
  from assms(1) have eq: "sint n = uint n"
    by (rule sint_nonneg_eq_uint)
  have "uint (n * k) = (uint n * uint k) mod 2 ^ 64"
    by (simp add: uint_word_ariths)
  also from assms(2) eq have "\<dots> = uint n * uint k"
    by (simp add: mod_pos_pos_trivial)
  finally show ?thesis by (simp add: eq)
qed

lemma CudaTensorMake_exact_when_product_fits:
  assumes "0 \<le> sint (GetNumElements shape)"
    and "sint (GetNumElements shape) * uint (GetHostSize T) < 2 ^ 64"
  shows "isl (CudaTensorMake show_shape T buffer shape) \<longleftrightarrow>
           \<not> gpu_valid buffer
           \<or> uint (gpu_size buffer) \<noteq> sint (GetNumElements shape) * uint (GetHostSize T)"
proof -
  have "gpu_size buffer = GetNumElements shape * GetHostSize T \<longleftrightarrow>
      uint (gpu_size buffer) = uint (GetNumElements shape * GetHostSize T)"
    by (simp add: word_uint_eq_iff)
  with uint_product_fits [OF assms] show ?thesis
    by (simp add: CudaTensorMake_def)
qed

lemma CudaTensorMake_result:
  assumes "CudaTensorMake show_shape T buffer shape = Inr tensor"
  shows "tensor_shape tensor = shape \<and> tensor_dtype tensor = T
       \<and> crt_pointer (tensor_buffer tensor) = gpu_pointer buffer
       \<and> crt_size (tensor_buffer tensor) = gpu_size buffer"
  using assms by (auto simp: CudaTensorMake_def split: if_splits)

end
